theory Spec2Isabelle
  imports Main
begin

section \<open>The MQTT connection controller (js6.js and its earlier variant part_000)\<close>

text \<open>
  The repository holds two variants of the same module \<open>MQTT_Ctrl\<close>: \<open>src/js6.js\<close>
  and \<open>src/unnamed/part_000\<close>. Both keep the same module-level variables and export the
  same operations, but their bodies differ. Both are embedded here; a definition that
  ends in \<open>_js6\<close> follows js6.js and one that ends in \<open>_p000\<close> follows part_000.

  The module is single-threaded JavaScript: every exported operation and every callback
  (transport event, timer) runs to completion before the next one starts. An operation
  is a function from the module state to the new state and the list of effects it
  performed, in order. Calls into the Paho client are effects; whether such a call
  throws is not decided by this module and is read from the environment \<open>env\<close>.
  The host callbacks are assumed to return normally and not to call back into the
  module while they run.
\<close>

subsection \<open>Configuration\<close>

definition MQTT_BROKER_HOST :: string where
  "MQTT_BROKER_HOST = ''broker.hivemq.com''"

definition MQTT_COMMAND_TOPIC :: string where
  "MQTT_COMMAND_TOPIC = ''ac_remote/SANKAR_AC_BLE_MQTT/command_to_esp32''"

definition MQTT_STATUS_TOPIC :: string where
  "MQTT_STATUS_TOPIC = ''ac_remote/SANKAR_AC_BLE_MQTT/status_from_esp32''"

text \<open>js6.js calls the topic \<open>MQTT_DEVICE_READY_TOPIC\<close>, part_000 declares the same
  string as \<open>MQTT_ESP32_READY_TOPIC\<close>.\<close>

definition MQTT_DEVICE_READY_TOPIC :: string where
  "MQTT_DEVICE_READY_TOPIC = ''ac_remote/SANKAR_AC_BLE_MQTT/esp32_ready''"

definition MQTT_ESP32_READY_TOPIC :: string where
  "MQTT_ESP32_READY_TOPIC = ''ac_remote/SANKAR_AC_BLE_MQTT/esp32_ready''"

definition DEVICE_READY_TIMEOUT_MS :: nat where
  "DEVICE_READY_TIMEOUT_MS = 10000"

subsection \<open>State, environment, effects\<close>

datatype exn = ReferenceError string | TypeError string | TransportError string

datatype paho_client = PahoClient string nat "string option" string

text \<open>What an operation does to the outside, in the order it does it.\<close>

datatype effect =
    ConsoleLog string
  | ConsoleError string
  | StatusChange bool bool string
  | StatusChangeMqtt bool string
  | DataReceived string
  | ClientConnect
  | ClientSubscribe string
  | ClientUnsubscribe string
  | ClientDisconnect
  | ClientSend string string
  | SetTimeout nat nat
  | ClearTimeout "nat option"

text \<open>
  \<open>StatusChange b d m\<close> is js6.js's call \<open>onConnectionStatusChangeCallback(b, d, m)\<close>;
  \<open>StatusChangeMqtt b m\<close> is part_000's call
  \<open>onConnectionStatusChangeCallback('mqtt', b, m)\<close>.
\<close>

record env =
  paho_loaded :: bool
  client_ctor_throws :: bool
  clientIdSuffix :: string
  isConnected :: bool
  connect_throws :: bool
  subscribe_throws :: "string \<Rightarrow> bool"
  unsubscribe_throws :: "string \<Rightarrow> bool"
  disconnect_throws :: bool
  send_throws :: bool

text \<open>
  The module variables, and the host's queue of pending \<open>setTimeout\<close> handles
  (\<open>timers\<close>, \<open>nextTimer\<close>). A callback variable is \<open>True\<close> when it holds a function.
\<close>

record ctrl =
  client :: "paho_client option"
  connectedToBroker :: bool
  esp32ConfirmedOnline :: bool
  onDataReceivedCallback :: bool
  onConnectionStatusChangeCallback :: bool
  deviceReadyTimeoutId :: "nat option"
  timers :: "nat list"
  nextTimer :: nat

record callbacks =
  onDataReceived :: bool
  onConnectionStatusChange :: bool

definition initial :: ctrl where
  "initial = \<lparr> client = None, connectedToBroker = False, esp32ConfirmedOnline = False,
     onDataReceivedCallback = False, onConnectionStatusChangeCallback = False,
     deviceReadyTimeoutId = None, timers = [], nextTimer = 0 \<rparr>"

text \<open>\<open>setTimeout\<close> hands out a fresh handle and queues it; \<open>clearTimeout\<close> of a handle
  that is null or not pending does nothing.\<close>

definition setTimeout :: "ctrl \<Rightarrow> nat \<times> ctrl" where
  "setTimeout s = (nextTimer s, s\<lparr>timers := timers s @ [nextTimer s], nextTimer := Suc (nextTimer s)\<rparr>)"

definition clearTimeout :: "nat option \<Rightarrow> ctrl \<Rightarrow> ctrl" where
  "clearTimeout h s = (case h of None \<Rightarrow> s | Some t \<Rightarrow> s\<lparr>timers := removeAll t (timers s)\<rparr>)"

subsection \<open>js6.js\<close>

definition updateAndNotifyStatus_js6 :: "bool \<Rightarrow> bool \<Rightarrow> string \<Rightarrow> ctrl \<Rightarrow> ctrl \<times> effect list" where
  "updateAndNotifyStatus_js6 broker device message s =
     (s\<lparr>connectedToBroker := broker, esp32ConfirmedOnline := device\<rparr>,
      if onConnectionStatusChangeCallback s then [StatusChange broker device message] else [])"

definition isBrokerConnected_js6 :: "ctrl \<Rightarrow> bool" where
  "isBrokerConnected_js6 s = connectedToBroker s"

definition isFullyConnected_js6 :: "ctrl \<Rightarrow> bool" where
  "isFullyConnected_js6 s = (connectedToBroker s \<and> esp32ConfirmedOnline s)"

definition disconnect_js6 :: "env \<Rightarrow> ctrl \<Rightarrow> (exn + unit) \<times> ctrl \<times> effect list" where
  "disconnect_js6 e s =
     (if client s = None \<or> \<not> connectedToBroker s then (Inr (), s, [])
      else
        let (s1, n1) = updateAndNotifyStatus_js6 False False ''MQTT Disconnected'' s
        in (Inr (), s1,
            [ConsoleLog ''Disconnecting from MQTT broker.'', ClientDisconnect]
            @ (if disconnect_throws e then [ConsoleError ''Error during disconnect:''] else [])
            @ n1))"

text \<open>The function passed to \<open>setTimeout\<close> in \<open>onConnectSuccess\<close> (js6.js lines 60-63).\<close>

definition deviceReadyTimeout_js6 :: "ctrl \<Rightarrow> ctrl \<times> effect list" where
  "deviceReadyTimeout_js6 s =
     (let (s1, n1) = updateAndNotifyStatus_js6 True False ''Device Offline'' s
      in (s1, [ConsoleError ''Device did not report 'online' status in time.''] @ n1))"

text \<open>
  \<open>onConnectSuccess\<close>: a throw inside the \<open>try\<close> (a null client, or a \<open>subscribe\<close> that
  throws) skips the rest of the block and runs the \<open>catch\<close>, which calls \<open>disconnect()\<close>.
\<close>

definition onConnectSuccess_js6 :: "env \<Rightarrow> ctrl \<Rightarrow> ctrl \<times> effect list" where
  "onConnectSuccess_js6 e s =
     (let (s1, n1) = updateAndNotifyStatus_js6 True False ''Awaiting Device...'' s;
          pre = [ConsoleLog ''Successfully connected to MQTT broker.''] @ n1
      in
        if client s1 = None then
          (let (r, s2, fx) = disconnect_js6 e s1
           in (s2, pre @ [ConsoleError ''Error during subscription:''] @ fx))
        else if subscribe_throws e MQTT_STATUS_TOPIC then
          (let (r, s2, fx) = disconnect_js6 e s1
           in (s2, pre @ [ClientSubscribe MQTT_STATUS_TOPIC,
                          ConsoleError ''Error during subscription:''] @ fx))
        else if subscribe_throws e MQTT_DEVICE_READY_TOPIC then
          (let (r, s2, fx) = disconnect_js6 e s1
           in (s2, pre @ [ClientSubscribe MQTT_STATUS_TOPIC, ClientSubscribe MQTT_DEVICE_READY_TOPIC,
                          ConsoleError ''Error during subscription:''] @ fx))
        else
          (let (t, s2) = setTimeout s1
           in (s2\<lparr>deviceReadyTimeoutId := Some t\<rparr>,
               pre @ [ClientSubscribe MQTT_STATUS_TOPIC, ClientSubscribe MQTT_DEVICE_READY_TOPIC,
                      ConsoleLog (''Subscribed to: '' @ MQTT_STATUS_TOPIC),
                      ConsoleLog (''Subscribed to: '' @ MQTT_DEVICE_READY_TOPIC),
                      SetTimeout t DEVICE_READY_TIMEOUT_MS])))"

definition onConnectFailure_js6 :: "string \<Rightarrow> ctrl \<Rightarrow> ctrl \<times> effect list" where
  "onConnectFailure_js6 errorMessage s =
     (let (s1, n1) = updateAndNotifyStatus_js6 False False ''MQTT Failed'' s
      in (s1, [ConsoleError (''Failed to connect to MQTT broker: '' @ errorMessage)] @ n1))"

definition onConnectionLost_js6 :: "string \<Rightarrow> ctrl \<Rightarrow> ctrl \<times> effect list" where
  "onConnectionLost_js6 errorMessage s =
     (let (s1, n1) = updateAndNotifyStatus_js6 False False ''MQTT Disconnected'' s
      in (s1, [ConsoleError (''MQTT connection lost: '' @ errorMessage)] @ n1))"

definition onMessageArrived_js6 :: "string \<Rightarrow> string \<Rightarrow> ctrl \<Rightarrow> ctrl \<times> effect list" where
  "onMessageArrived_js6 topic payload s =
     (let pre = [ConsoleLog (''Message arrived on topic: '' @ topic)] in
      if topic = MQTT_DEVICE_READY_TOPIC then
        (if payload = ''online'' then
           (let s1 = clearTimeout (deviceReadyTimeoutId s) s;
                (s2, n2) = updateAndNotifyStatus_js6 True True ''MQTT Device Online'' s1
            in (s2, pre @ [ConsoleLog ''Device is ONLINE.'', ClearTimeout (deviceReadyTimeoutId s)] @ n2))
         else
           (let (s1, n1) = updateAndNotifyStatus_js6 True False ''Device Offline'' s
            in (s1, pre @ [ConsoleLog ''Device is OFFLINE.''] @ n1)))
      else if topic = MQTT_STATUS_TOPIC then
        (s, pre @ (if onDataReceivedCallback s then [DataReceived payload] else []))
      else (s, pre))"

text \<open>
  \<open>init(callbacks)\<close>: reading \<open>callbacks.onDataReceived\<close> of an absent argument is a
  TypeError, raised before the \<open>try\<close>.
\<close>

definition init_js6 :: "env \<Rightarrow> callbacks option \<Rightarrow> ctrl \<Rightarrow> (exn + bool) \<times> ctrl \<times> effect list" where
  "init_js6 e cbs s =
     (if client s \<noteq> None then (Inr True, s, [ConsoleLog ''MQTT Controller already initialized.''])
      else case cbs of
        None \<Rightarrow> (Inl (TypeError ''callbacks''), s, [ConsoleLog ''Initializing MQTT Controller...''])
      | Some c \<Rightarrow>
         (let s1 = s\<lparr>onDataReceivedCallback := onDataReceived c,
                      onConnectionStatusChangeCallback := onConnectionStatusChange c\<rparr>
          in if client_ctor_throws e then
               (Inr False, s1, [ConsoleLog ''Initializing MQTT Controller...'',
                                ConsoleError ''Failed to create Paho client.''])
             else
               (Inr True,
                s1\<lparr>client := Some (PahoClient MQTT_BROKER_HOST 8884 (Some ''/mqtt'')
                                     (''AC_WebApp_'' @ clientIdSuffix e))\<rparr>,
                [ConsoleLog ''Initializing MQTT Controller...''])))"

definition connect_js6 :: "env \<Rightarrow> ctrl \<Rightarrow> (exn + unit) \<times> ctrl \<times> effect list" where
  "connect_js6 e s =
     (if connectedToBroker s then (Inr (), s, [ConsoleLog ''Already connected or connecting.''])
      else if client s = None then
        (Inr (), s, [ConsoleError ''Client not initialized. Call init() first.''])
      else
        (let (s1, n1) = updateAndNotifyStatus_js6 False False ''MQTT Connecting...'' s;
             pre = [ConsoleLog ''Attempting to connect...''] @ n1 @ [ClientConnect]
         in if connect_throws e then
              (let (s2, n2) = updateAndNotifyStatus_js6 False False ''MQTT Connection Error'' s1
               in (Inr (), s2, pre @ [ConsoleError ''Error during client.connect call:''] @ n2))
            else (Inr (), s1, pre)))"

text \<open>
  \<open>publish(jsonString)\<close>: the argument is a string, for which \<open>new Paho.Message\<close> does not
  throw; \<open>client.send\<close> on a null client throws inside the \<open>try\<close> before any send.
\<close>

definition publish_js6 :: "env \<Rightarrow> string \<Rightarrow> ctrl \<Rightarrow> (exn + bool) \<times> ctrl \<times> effect list" where
  "publish_js6 e jsonString s =
     (if \<not> isFullyConnected_js6 s then
        (Inr False, s, [ConsoleError ''Cannot publish: Not fully connected.''])
      else if client s = None then (Inr False, s, [ConsoleError ''Publish error:''])
      else if send_throws e then
        (Inr False, s, [ClientSend MQTT_COMMAND_TOPIC jsonString, ConsoleError ''Publish error:''])
      else (Inr True, s, [ClientSend MQTT_COMMAND_TOPIC jsonString]))"

definition forceDeviceOnlineConfirmation_js6 :: "ctrl \<Rightarrow> (exn + unit) \<times> ctrl \<times> effect list" where
  "forceDeviceOnlineConfirmation_js6 s =
     (if isBrokerConnected_js6 s \<and> \<not> esp32ConfirmedOnline s then
        (let s1 = clearTimeout (deviceReadyTimeoutId s) s;
             (s2, n2) = updateAndNotifyStatus_js6 True True ''MQTT Device Online'' s1
         in (Inr (), s2,
             [ConsoleLog ''Device online status confirmed via alternative method (e.g., BLE).'',
              ClearTimeout (deviceReadyTimeoutId s)] @ n2))
      else (Inr (), s, []))"

subsection \<open>part_000\<close>

text \<open>
  \<open>String.prototype.toLowerCase\<close> and \<open>includes\<close> (here \<open>includes_str\<close>), on the characters of a payload. Only
  the letters A to Z are mapped; no other character lowers to one of the letters of
  \<open>online\<close>.
\<close>

definition toLowerCase_char :: "char \<Rightarrow> char" where
  "toLowerCase_char c =
     (case map_of (zip ''ABCDEFGHIJKLMNOPQRSTUVWXYZ'' ''abcdefghijklmnopqrstuvwxyz'') c of
        Some d \<Rightarrow> d
      | None \<Rightarrow> c)"

definition toLowerCase :: "string \<Rightarrow> string" where
  "toLowerCase p = map toLowerCase_char p"

fun includes_str :: "string \<Rightarrow> string \<Rightarrow> bool" where
  "includes_str [] p = (p = [])"
| "includes_str (c # cs) p = (take (length p) (c # cs) = p \<or> includes_str cs p)"

text \<open>part_000 passes the literal \<open>'mqtt'\<close>, the new broker flag and the message.\<close>

definition updateAndNotifyStatus_p000 :: "bool \<Rightarrow> bool \<Rightarrow> string \<Rightarrow> ctrl \<Rightarrow> ctrl \<times> effect list" where
  "updateAndNotifyStatus_p000 isBrokerConnectedState isDeviceOnlineState statusMessage s =
     (s\<lparr>connectedToBroker := isBrokerConnectedState, esp32ConfirmedOnline := isDeviceOnlineState\<rparr>,
      if onConnectionStatusChangeCallback s
      then [StatusChangeMqtt isBrokerConnectedState statusMessage] else [])"

definition isBrokerConnected_p000 :: "env \<Rightarrow> ctrl \<Rightarrow> bool" where
  "isBrokerConnected_p000 e s = (connectedToBroker s \<and> client s \<noteq> None \<and> isConnected e)"

definition isFullyConnected_p000 :: "env \<Rightarrow> ctrl \<Rightarrow> bool" where
  "isFullyConnected_p000 e s = (isBrokerConnected_p000 e s \<and> esp32ConfirmedOnline s)"

definition onConnectionLost_p000 :: "int \<Rightarrow> string \<Rightarrow> ctrl \<Rightarrow> ctrl \<times> effect list" where
  "onConnectionLost_p000 errorCode errorMessage s =
     (let s0 = clearTimeout (deviceReadyTimeoutId s) s;
          pre = [ClearTimeout (deviceReadyTimeoutId s)]
      in if errorCode \<noteq> 0 then
           (let (s1, n1) = updateAndNotifyStatus_p000 False False ''MQTT Connection Lost'' s0
            in (s1, pre @ [ConsoleError (''Connection Lost - '' @ errorMessage)] @ n1))
         else
           (let (s1, n1) = updateAndNotifyStatus_p000 False False ''MQTT Disconnected'' s0
            in (s1, pre @ [ConsoleLog ''Deliberately disconnected from MQTT broker.''] @ n1)))"

definition onMessageArrived_p000 :: "env \<Rightarrow> string \<Rightarrow> string \<Rightarrow> ctrl \<Rightarrow> ctrl \<times> effect list" where
  "onMessageArrived_p000 e destinationName payloadString s =
     (if destinationName = MQTT_STATUS_TOPIC then
        (s, if onDataReceivedCallback s then [DataReceived payloadString] else [])
      else if destinationName = MQTT_ESP32_READY_TOPIC then
        (if payloadString \<noteq> [] \<and> includes_str (toLowerCase payloadString) ''online'' then
           (let s0 = clearTimeout (deviceReadyTimeoutId s) s;
                pre = [ConsoleLog ''ESP32 reported 'online' via MQTT (esp32_ready topic).'',
                       ClearTimeout (deviceReadyTimeoutId s)]
            in if connectedToBroker s0 then
                 (let (s1, n1) = updateAndNotifyStatus_p000 True True ''MQTT Device Online'' s0
                  in (s1, pre @ n1))
               else
                 (let pre2 = pre @ [ConsoleLog
                        ''Received ESP32 ready, but broker connection state is false. This is unusual.'']
                  in if client s0 \<noteq> None \<and> isConnected e then
                       (let (s1, n1) = updateAndNotifyStatus_p000 True True ''MQTT Device Online'' s0
                        in (s1, pre2 @ n1))
                     else (s0, pre2)))
         else (s, []))
      else (s, []))"

definition init_p000 :: "env \<Rightarrow> callbacks option \<Rightarrow> ctrl \<Rightarrow> (exn + bool) \<times> ctrl \<times> effect list" where
  "init_p000 e config s =
     (if \<not> paho_loaded e then
        (Inr False, s, [ConsoleLog ''init() called.'',
                        ConsoleError ''init(): Paho.Client component is missing.''])
      else
        (let s1 = (case config of
                     None \<Rightarrow> s
                   | Some c \<Rightarrow>
                       s\<lparr>onDataReceivedCallback :=
                            (if onDataReceived c then True else onDataReceivedCallback s),
                          onConnectionStatusChangeCallback :=
                            (if onConnectionStatusChange c then True
                             else onConnectionStatusChangeCallback s)\<rparr>);
             mqttClientID = ''acWebClient_'' @ clientIdSuffix e;
             pre = [ConsoleLog ''init() called.'',
                    ConsoleLog (''Creating Paho.Client for '' @ MQTT_BROKER_HOST @ '':8000, ID: ''
                                @ mqttClientID)]
         in if client_ctor_throws e then
              (Inr False, s1, pre @ [ConsoleError ''Error creating Paho.Client instance:''])
            else
              (Inr True, s1\<lparr>client := Some (PahoClient MQTT_BROKER_HOST 8000 None mqttClientID)\<rparr>,
               pre @ [ConsoleLog (''Initialized successfully. Client ID: '' @ mqttClientID)])))"

text \<open>
  \<open>connect()\<close> of part_000 (lines 131-171). After the two guards and the status update,
  line 146 evaluates the identifier \<open>onMessageArrived\<close>. part_000 declares no variable of
  that name (nor \<open>onConnectionLost\<close>, \<open>onConnectSuccess\<close>, \<open>onConnectFailure\<close>,
  \<open>MQTT_USE_SSL\<close>, \<open>MQTT_DEVICE_READY_TOPIC\<close>, used on the following lines), and js6.js
  keeps its functions of these names local to its own closure. Evaluating an undeclared
  identifier raises a ReferenceError; the statement is outside the \<open>try\<close>, so the error
  leaves \<open>connect\<close> and lines 147-170 (building the options, \<open>client.connect\<close>) do not run.
\<close>

definition connect_p000 :: "env \<Rightarrow> ctrl \<Rightarrow> (exn + unit) \<times> ctrl \<times> effect list" where
  "connect_p000 e s =
     (if connectedToBroker s then
        (Inr (), s, [ConsoleLog ''Already connected or connecting to broker.''])
      else if client s = None then
        (Inr (), s, [ConsoleError ''Client not initialized. Call init() first.''])
      else
        (let (s1, n1) = updateAndNotifyStatus_p000 False False ''MQTT Connecting...'' s
         in (Inl (ReferenceError ''onMessageArrived''), s1,
             [ConsoleLog (''Attempting to connect to MQTT broker at '' @ MQTT_BROKER_HOST
                          @ '':8000...'')] @ n1)))"

text \<open>The function passed to \<open>setTimeout\<close> in \<open>_startDeviceReadyCheckTimer\<close>
  (part_000 lines 195-201).\<close>

definition deviceReadyTimeout_p000 :: "ctrl \<Rightarrow> ctrl \<times> effect list" where
  "deviceReadyTimeout_p000 s =
     (if connectedToBroker s \<and> \<not> esp32ConfirmedOnline s then
        (let (s1, n1) = updateAndNotifyStatus_p000 True False ''MQTT: Device Not Responding'' s
         in (s1, [ConsoleLog ''Timeout: ESP32 did not send 'online' message via MQTT within 7s.'']
                 @ n1))
      else (s, []))"

definition startDeviceReadyCheckTimer_p000 :: "ctrl \<Rightarrow> ctrl \<times> effect list" where
  "startDeviceReadyCheckTimer_p000 s =
     (let s0 = clearTimeout (deviceReadyTimeoutId s) s;
          (t, s1) = setTimeout s0
      in (s1\<lparr>deviceReadyTimeoutId := Some t\<rparr>,
          [ClearTimeout (deviceReadyTimeoutId s),
           ConsoleLog ''Starting timer for ESP32 'online' message (7 seconds).'',
           SetTimeout t 7000]))"

text \<open>\<open>_subscribeToTopicsAndRestartDeviceCheckTimer\<close>: the two \<open>subscribe\<close> calls are
  not inside a \<open>try\<close>. No function of part_000 calls it.\<close>

definition subscribeToTopicsAndRestartDeviceCheckTimer_p000 ::
    "env \<Rightarrow> ctrl \<Rightarrow> (exn + unit) \<times> ctrl \<times> effect list" where
  "subscribeToTopicsAndRestartDeviceCheckTimer_p000 e s =
     (if client s = None \<or> \<not> isConnected e then
        (Inr (), s,
         [ConsoleError ''Cannot subscribe or start device check, not connected to broker.''])
      else if subscribe_throws e MQTT_STATUS_TOPIC then
        (Inl (TransportError ''subscribe''), s, [ClientSubscribe MQTT_STATUS_TOPIC])
      else if subscribe_throws e MQTT_ESP32_READY_TOPIC then
        (Inl (TransportError ''subscribe''), s,
         [ClientSubscribe MQTT_STATUS_TOPIC, ClientSubscribe MQTT_ESP32_READY_TOPIC])
      else
        (let (s1, fx) = startDeviceReadyCheckTimer_p000 s
         in (Inr (), s1,
             [ClientSubscribe MQTT_STATUS_TOPIC, ClientSubscribe MQTT_ESP32_READY_TOPIC] @ fx)))"

text \<open>
  \<open>disconnect()\<close>: \<open>client.isConnected()\<close> is read four times; no transport event is
  processed while the function runs, so the four reads agree. A throw of any of the
  three calls in the \<open>try\<close> runs the \<open>catch\<close>.
\<close>

definition disconnect_p000 :: "env \<Rightarrow> ctrl \<Rightarrow> (exn + unit) \<times> ctrl \<times> effect list" where
  "disconnect_p000 e s =
     (let s0 = clearTimeout (deviceReadyTimeoutId s) s;
          pre = [ConsoleLog ''disconnect() called by main application.'',
                 ClearTimeout (deviceReadyTimeoutId s)]
      in if client s0 \<noteq> None \<and> isConnected e then
           (let pre2 = pre @ [ConsoleLog ''Actively disconnecting Paho client from MQTT broker.''];
                tried =
                  (if unsubscribe_throws e MQTT_STATUS_TOPIC then
                     (True, [ClientUnsubscribe MQTT_STATUS_TOPIC])
                   else if unsubscribe_throws e MQTT_ESP32_READY_TOPIC then
                     (True, [ClientUnsubscribe MQTT_STATUS_TOPIC,
                             ClientUnsubscribe MQTT_ESP32_READY_TOPIC])
                   else
                     (disconnect_throws e,
                      [ClientUnsubscribe MQTT_STATUS_TOPIC,
                       ClientUnsubscribe MQTT_ESP32_READY_TOPIC, ClientDisconnect]))
            in if fst tried then
                 (let (s1, n1) = updateAndNotifyStatus_p000 False False ''MQTT Disconnect Error'' s0
                  in (Inr (), s1,
                      pre2 @ snd tried
                      @ [ConsoleError ''Exception during Paho client.disconnect() sequence:''] @ n1))
               else (Inr (), s0, pre2 @ snd tried))
         else
           (let (s1, n1) = updateAndNotifyStatus_p000 False False ''MQTT Disconnected'' s0
            in (Inr (), s1,
                pre @ [ConsoleLog
                  ''disconnect() called but Paho client already disconnected or not initialized.'']
                @ n1)))"

text \<open>
  \<open>publish(commandObject)\<close>: \<open>jsonString\<close> is the text \<open>JSON.stringify(commandObject)\<close>
  returns for a command object.
\<close>

definition publish_p000 :: "env \<Rightarrow> string \<Rightarrow> ctrl \<Rightarrow> (exn + bool) \<times> ctrl \<times> effect list" where
  "publish_p000 e jsonString s =
     (if \<not> isBrokerConnected_p000 e s then
        (Inr False, s, [ConsoleError ''Cannot publish: Not connected to MQTT broker.''])
      else
        (let warn = (if \<not> isFullyConnected_p000 e s then
               [ConsoleLog ''Warning: Publishing command, but ESP32 device is not confirmed online. Message might be queued or lost.'']
             else [])
         in if send_throws e then
              (Inr False, s, warn @ [ClientSend MQTT_COMMAND_TOPIC jsonString,
                                     ConsoleError ''Publish error:''])
            else (Inr True, s, warn @ [ClientSend MQTT_COMMAND_TOPIC jsonString])))"

definition forceDeviceOnlineConfirmation_p000 ::
    "env \<Rightarrow> ctrl \<Rightarrow> (exn + unit) \<times> ctrl \<times> effect list" where
  "forceDeviceOnlineConfirmation_p000 e s =
     (if isBrokerConnected_p000 e s \<and> \<not> esp32ConfirmedOnline s then
        (let s0 = clearTimeout (deviceReadyTimeoutId s) s;
             (s1, n1) = updateAndNotifyStatus_p000 True True ''MQTT Device Online (Confirmed Alt)'' s0
         in (Inr (), s1,
             [ConsoleLog ''Device online status externally confirmed (e.g., via BLE ack for ESP32's custom handshake).'',
              ClearTimeout (deviceReadyTimeoutId s)] @ n1))
      else if \<not> isBrokerConnected_p000 e s then
        (Inr (), s,
         [ConsoleLog ''forceDeviceOnlineConfirmation called, but not even connected to broker.''])
      else (Inr (), s, []))"

subsection \<open>The event loop\<close>

text \<open>
  One event is one call of an exported operation by the host, one transport callback,
  or the firing of a pending timer (which removes its handle from the queue and runs
  the callback of that variant). part_000 has no connect-success or connect-failure
  handler; \<open>RestartDeviceCheck\<close> stands for a call of its otherwise uncalled
  \<open>_subscribeToTopicsAndRestartDeviceCheckTimer\<close>, so that the states in which its
  watchdog is armed are covered too.
\<close>

datatype event =
    Init "callbacks option"
  | Connect
  | Disconnect
  | Publish string
  | ForceDeviceOnlineConfirmation
  | ConnectSuccess
  | ConnectFailure string
  | ConnectionLost int string
  | MessageArrived string string
  | RestartDeviceCheck
  | TimerFires nat

datatype variant = JS6 | P000

fun step :: "variant \<Rightarrow> env \<Rightarrow> event \<Rightarrow> ctrl \<Rightarrow> ctrl \<times> effect list" where
  "step JS6 e (Init c) s = snd (init_js6 e c s)"
| "step JS6 e Connect s = snd (connect_js6 e s)"
| "step JS6 e Disconnect s = snd (disconnect_js6 e s)"
| "step JS6 e (Publish j) s = snd (publish_js6 e j s)"
| "step JS6 e ForceDeviceOnlineConfirmation s = snd (forceDeviceOnlineConfirmation_js6 s)"
| "step JS6 e ConnectSuccess s = onConnectSuccess_js6 e s"
| "step JS6 e (ConnectFailure m) s = onConnectFailure_js6 m s"
| "step JS6 e (ConnectionLost c m) s = onConnectionLost_js6 m s"
| "step JS6 e (MessageArrived t p) s = onMessageArrived_js6 t p s"
| "step JS6 e RestartDeviceCheck s = (s, [])"
| "step JS6 e (TimerFires t) s =
     (if t \<in> set (timers s) then deviceReadyTimeout_js6 (s\<lparr>timers := removeAll t (timers s)\<rparr>)
      else (s, []))"
| "step P000 e (Init c) s = snd (init_p000 e c s)"
| "step P000 e Connect s = snd (connect_p000 e s)"
| "step P000 e Disconnect s = snd (disconnect_p000 e s)"
| "step P000 e (Publish j) s = snd (publish_p000 e j s)"
| "step P000 e ForceDeviceOnlineConfirmation s = snd (forceDeviceOnlineConfirmation_p000 e s)"
| "step P000 e ConnectSuccess s = (s, [])"
| "step P000 e (ConnectFailure m) s = (s, [])"
| "step P000 e (ConnectionLost c m) s = onConnectionLost_p000 c m s"
| "step P000 e (MessageArrived t p) s = onMessageArrived_p000 e t p s"
| "step P000 e RestartDeviceCheck s = snd (subscribeToTopicsAndRestartDeviceCheckTimer_p000 e s)"
| "step P000 e (TimerFires t) s =
     (if t \<in> set (timers s) then deviceReadyTimeout_p000 (s\<lparr>timers := removeAll t (timers s)\<rparr>)
      else (s, []))"

fun run :: "variant \<Rightarrow> env \<Rightarrow> event list \<Rightarrow> ctrl \<Rightarrow> ctrl" where
  "run v e [] s = s"
| "run v e (ev # evs) s = run v e evs (fst (step v e ev s))"

inductive reachable :: "variant \<Rightarrow> ctrl \<Rightarrow> bool" for v :: variant where
  reachable_initial: "reachable v initial"
| reachable_step: "reachable v s \<Longrightarrow> reachable v (fst (step v e ev s))"

text \<open>An environment in which the Paho library is loaded, the transport reports a
  connected session and no call throws; and the callbacks a host registers.\<close>

definition calm :: env where
  "calm = \<lparr> paho_loaded = True, client_ctor_throws = False, clientIdSuffix = ''1'',
     isConnected = True, connect_throws = False, subscribe_throws = (\<lambda>t. False),
     unsubscribe_throws = (\<lambda>t. False), disconnect_throws = False, send_throws = False \<rparr>"

definition hostCallbacks :: "callbacks option" where
  "hostCallbacks = Some \<lparr> onDataReceived = True, onConnectionStatusChange = True \<rparr>"

subsection \<open>Reading a list of effects\<close>

text \<open>The three parts of what an exported operation returns.\<close>

definition outcome :: "'a \<times> ctrl \<times> effect list \<Rightarrow> 'a" where
  "outcome r = fst r"

definition after :: "'a \<times> ctrl \<times> effect list \<Rightarrow> ctrl" where
  "after r = fst (snd r)"

definition effects :: "'a \<times> ctrl \<times> effect list \<Rightarrow> effect list" where
  "effects r = snd (snd r)"

fun isTransportCall :: "effect \<Rightarrow> bool" where
  "isTransportCall ClientConnect = True"
| "isTransportCall (ClientSubscribe t) = True"
| "isTransportCall (ClientUnsubscribe t) = True"
| "isTransportCall ClientDisconnect = True"
| "isTransportCall (ClientSend t p) = True"
| "isTransportCall x = False"

fun isStatusChange :: "effect \<Rightarrow> bool" where
  "isStatusChange (StatusChange b d m) = True"
| "isStatusChange (StatusChangeMqtt b m) = True"
| "isStatusChange x = False"

fun isSetTimeout :: "effect \<Rightarrow> bool" where
  "isSetTimeout (SetTimeout t ms) = True"
| "isSetTimeout x = False"

definition transportCalls :: "effect list \<Rightarrow> effect list" where
  "transportCalls fx = filter isTransportCall fx"

definition statusChanges :: "effect list \<Rightarrow> effect list" where
  "statusChanges fx = filter isStatusChange fx"

definition timersSet :: "effect list \<Rightarrow> effect list" where
  "timersSet fx = filter isSetTimeout fx"

text \<open>The watchdog handle held in \<open>deviceReadyTimeoutId\<close> of \<open>s\<close> is pending in \<open>s'\<close>.\<close>

definition watchdogPending :: "ctrl \<Rightarrow> ctrl \<Rightarrow> bool" where
  "watchdogPending s s' = (case deviceReadyTimeoutId s of None \<Rightarrow> False | Some t \<Rightarrow> t \<in> set (timers s'))"

subsection \<open>Some reachable states\<close>

definition initialized_js6 :: ctrl where
  "initialized_js6 = run JS6 calm [Init hostCallbacks] initial"

definition connecting_js6 :: ctrl where
  "connecting_js6 = run JS6 calm [Init hostCallbacks, Connect] initial"

definition awaiting_js6 :: ctrl where
  "awaiting_js6 = run JS6 calm [Init hostCallbacks, Connect, ConnectSuccess] initial"

definition online_js6 :: ctrl where
  "online_js6 = run JS6 calm [Init hostCallbacks, Connect, ConnectSuccess,
     MessageArrived MQTT_DEVICE_READY_TOPIC ''online''] initial"

text \<open>Connected, disconnected by the host and connected again, then confirmed: the
  timer of the first connection (handle 0) was never cleared.\<close>

definition reconnected_js6 :: ctrl where
  "reconnected_js6 = run JS6 calm [Init hostCallbacks, Connect, ConnectSuccess, Disconnect,
     Connect, ConnectSuccess, MessageArrived MQTT_DEVICE_READY_TOPIC ''online''] initial"

definition initialized_p000 :: ctrl where
  "initialized_p000 = run P000 calm [Init hostCallbacks] initial"

text \<open>
  part_000 after an \<open>online\<close> message that arrived while the transport reported a
  session (both flags set), and part_000 in the state a connect-success handler leaves:
  broker flag set, device flag clear, watchdog armed by \<open>_startDeviceReadyCheckTimer\<close>.
\<close>

definition online_p000 :: ctrl where
  "online_p000 = run P000 calm [Init hostCallbacks,
     MessageArrived MQTT_ESP32_READY_TOPIC ''online''] initial"

definition awaiting_p000 :: ctrl where
  "awaiting_p000 = fst (startDeviceReadyCheckTimer_p000 (initialized_p000\<lparr>connectedToBroker := True\<rparr>))"

section \<open>Simplification sets and evaluated states\<close>

lemmas cfg_defs = MQTT_BROKER_HOST_def MQTT_COMMAND_TOPIC_def MQTT_STATUS_TOPIC_def
  MQTT_DEVICE_READY_TOPIC_def MQTT_ESP32_READY_TOPIC_def DEVICE_READY_TIMEOUT_MS_def

lemmas timer_defs = setTimeout_def clearTimeout_def

lemmas js6_defs = updateAndNotifyStatus_js6_def isBrokerConnected_js6_def isFullyConnected_js6_def
  disconnect_js6_def deviceReadyTimeout_js6_def onConnectSuccess_js6_def onConnectFailure_js6_def
  onConnectionLost_js6_def onMessageArrived_js6_def init_js6_def connect_js6_def publish_js6_def
  forceDeviceOnlineConfirmation_js6_def

lemmas p000_defs = updateAndNotifyStatus_p000_def isBrokerConnected_p000_def
  isFullyConnected_p000_def onConnectionLost_p000_def onMessageArrived_p000_def init_p000_def
  connect_p000_def deviceReadyTimeout_p000_def startDeviceReadyCheckTimer_p000_def
  subscribeToTopicsAndRestartDeviceCheckTimer_p000_def disconnect_p000_def publish_p000_def
  forceDeviceOnlineConfirmation_p000_def

lemmas fx_defs = outcome_def after_def effects_def transportCalls_def statusChanges_def
  timersSet_def watchdogPending_def

lemmas run_defs = calm_def hostCallbacks_def initial_def Let_def

lemma initialized_js6_eval:
  "initialized_js6 = \<lparr> client = Some (PahoClient ''broker.hivemq.com'' 8884 (Some ''/mqtt'') ''AC_WebApp_1''),
     connectedToBroker = False, esp32ConfirmedOnline = False,
     onDataReceivedCallback = True, onConnectionStatusChangeCallback = True,
     deviceReadyTimeoutId = None, timers = [], nextTimer = 0 \<rparr>"
  by (simp add: initialized_js6_def js6_defs cfg_defs run_defs)

lemma connecting_js6_eval: "connecting_js6 = initialized_js6"
  by (simp add: initialized_js6_def connecting_js6_def js6_defs cfg_defs run_defs)

lemma awaiting_js6_eval:
  "awaiting_js6 = \<lparr> client = Some (PahoClient ''broker.hivemq.com'' 8884 (Some ''/mqtt'') ''AC_WebApp_1''),
     connectedToBroker = True, esp32ConfirmedOnline = False,
     onDataReceivedCallback = True, onConnectionStatusChangeCallback = True,
     deviceReadyTimeoutId = Some 0, timers = [0], nextTimer = 1 \<rparr>"
  by (simp add: awaiting_js6_def js6_defs timer_defs cfg_defs run_defs)

lemma online_js6_eval:
  "online_js6 = \<lparr> client = Some (PahoClient ''broker.hivemq.com'' 8884 (Some ''/mqtt'') ''AC_WebApp_1''),
     connectedToBroker = True, esp32ConfirmedOnline = True,
     onDataReceivedCallback = True, onConnectionStatusChangeCallback = True,
     deviceReadyTimeoutId = Some 0, timers = [], nextTimer = 1 \<rparr>"
  by (simp add: online_js6_def js6_defs timer_defs cfg_defs run_defs)

lemma reconnected_js6_eval:
  "reconnected_js6 = \<lparr> client = Some (PahoClient ''broker.hivemq.com'' 8884 (Some ''/mqtt'') ''AC_WebApp_1''),
     connectedToBroker = True, esp32ConfirmedOnline = True,
     onDataReceivedCallback = True, onConnectionStatusChangeCallback = True,
     deviceReadyTimeoutId = Some 1, timers = [0], nextTimer = 2 \<rparr>"
  by (simp add: reconnected_js6_def js6_defs timer_defs cfg_defs run_defs)

lemma initialized_p000_eval:
  "initialized_p000 = \<lparr> client = Some (PahoClient ''broker.hivemq.com'' 8000 None ''acWebClient_1''),
     connectedToBroker = False, esp32ConfirmedOnline = False,
     onDataReceivedCallback = True, onConnectionStatusChangeCallback = True,
     deviceReadyTimeoutId = None, timers = [], nextTimer = 0 \<rparr>"
  by (simp add: initialized_p000_def p000_defs cfg_defs run_defs)

lemma online_p000_eval:
  "online_p000 = \<lparr> client = Some (PahoClient ''broker.hivemq.com'' 8000 None ''acWebClient_1''),
     connectedToBroker = True, esp32ConfirmedOnline = True,
     onDataReceivedCallback = True, onConnectionStatusChangeCallback = True,
     deviceReadyTimeoutId = None, timers = [], nextTimer = 0 \<rparr>"
  by (simp add: online_p000_def p000_defs timer_defs cfg_defs run_defs toLowerCase_def toLowerCase_char_def)

lemma awaiting_p000_eval:
  "awaiting_p000 = \<lparr> client = Some (PahoClient ''broker.hivemq.com'' 8000 None ''acWebClient_1''),
     connectedToBroker = True, esp32ConfirmedOnline = False,
     onDataReceivedCallback = True, onConnectionStatusChangeCallback = True,
     deviceReadyTimeoutId = Some 0, timers = [0], nextTimer = 1 \<rparr>"
  by (simp add: awaiting_p000_def initialized_p000_eval p000_defs timer_defs)

lemmas state_evals = initialized_js6_eval connecting_js6_eval awaiting_js6_eval online_js6_eval
  reconnected_js6_eval initialized_p000_eval online_p000_eval awaiting_p000_eval

section \<open>The flag invariant\<close>

lemma step_js6_inv:
  "esp32ConfirmedOnline s \<longrightarrow> connectedToBroker s \<Longrightarrow>
   esp32ConfirmedOnline (fst (step JS6 e ev s)) \<longrightarrow> connectedToBroker (fst (step JS6 e ev s))"
  by (cases ev) (auto simp: js6_defs timer_defs Let_def split: option.splits if_splits prod.splits)

lemma step_p000_inv:
  "esp32ConfirmedOnline s \<longrightarrow> connectedToBroker s \<Longrightarrow>
   esp32ConfirmedOnline (fst (step P000 e ev s)) \<longrightarrow> connectedToBroker (fst (step P000 e ev s))"
  by (cases ev) (auto simp: p000_defs timer_defs Let_def split: option.splits if_splits prod.splits)

lemma step_inv:
  "esp32ConfirmedOnline s \<longrightarrow> connectedToBroker s \<Longrightarrow>
   esp32ConfirmedOnline (fst (step v e ev s)) \<longrightarrow> connectedToBroker (fst (step v e ev s))"
  using step_js6_inv [of s e ev] step_p000_inv [of s e ev] by (cases v) simp_all

lemma reachable_inv: "reachable v s \<Longrightarrow> esp32ConfirmedOnline s \<longrightarrow> connectedToBroker s"
proof (induction rule: reachable.induct)
  case reachable_initial
  show ?case by (simp add: initial_def)
next
  case (reachable_step s e ev)
  from reachable_step.IH show ?case by (rule step_inv)
qed

lemma reachable_run: "reachable v s \<Longrightarrow> reachable v (run v e evs s)"
  by (induction evs arbitrary: s) (auto intro: reachable_step)

text \<open>
  C1. In every state the controller can reach (either variant, any sequence of host
  calls, transport callbacks and timer firings, any behaviour of the transport),
  \<open>esp32ConfirmedOnline\<close> implies \<open>connectedToBroker\<close>; and whatever event comes next, if it
  leaves \<open>connectedToBroker\<close> false it leaves \<open>esp32ConfirmedOnline\<close> false as well.
\<close>

theorem C1_device_confirmed_implies_broker_connected:
  "reachable v s \<Longrightarrow>
   (esp32ConfirmedOnline s \<longrightarrow> connectedToBroker s) \<and>
   (\<forall>e ev. \<not> connectedToBroker (fst (step v e ev s)) \<longrightarrow>
            \<not> esp32ConfirmedOnline (fst (step v e ev s)))"
proof
  assume r: "reachable v s"
  then show "esp32ConfirmedOnline s \<longrightarrow> connectedToBroker s" by (rule reachable_inv)
  show "\<forall>e ev. \<not> connectedToBroker (fst (step v e ev s)) \<longrightarrow>
               \<not> esp32ConfirmedOnline (fst (step v e ev s))"
  proof (intro allI)
    fix e ev
    from r have "reachable v (fst (step v e ev s))" by (rule reachable_step)
    then show "\<not> connectedToBroker (fst (step v e ev s)) \<longrightarrow>
               \<not> esp32ConfirmedOnline (fst (step v e ev s))"
      using reachable_inv by blast
  qed
qed

theorem C1_device_confirmed_implies_broker_connected_witness:
  "reachable JS6 online_js6 \<and> esp32ConfirmedOnline online_js6 \<and> connectedToBroker online_js6 \<and>
   \<not> connectedToBroker (fst (step JS6 calm (ConnectionLost 8 ''Socket closed.'') online_js6)) \<and>
   \<not> esp32ConfirmedOnline (fst (step JS6 calm (ConnectionLost 8 ''Socket closed.'') online_js6))"
proof -
  have r: "reachable JS6 online_js6"
    unfolding online_js6_def by (rule reachable_run [OF reachable_initial])
  have d: "esp32ConfirmedOnline online_js6" by (simp add: online_js6_eval)
  have l: "\<not> connectedToBroker (fst (step JS6 calm (ConnectionLost 8 ''Socket closed.'') online_js6))"
    by (simp add: online_js6_eval js6_defs)
  from C1_device_confirmed_implies_broker_connected [OF r] d l r show ?thesis by blast
qed


section \<open>connect\<close>

lemma connect_js6_when_connected:
  "connectedToBroker s \<Longrightarrow>
   connect_js6 e s = (Inr (), s, [ConsoleLog ''Already connected or connecting.''])"
  by (simp add: connect_js6_def)

lemma connect_p000_when_connected:
  "connectedToBroker s \<Longrightarrow>
   connect_p000 e s = (Inr (), s, [ConsoleLog ''Already connected or connecting to broker.''])"
  by (simp add: connect_p000_def)

text \<open>
  C2. The claim: a second \<open>connect()\<close> issued while the first is still pending is a no-op,
  so that one transport connect request is issued in total. Evaluated on js6.js: the
  first \<open>connect()\<close> after \<open>init\<close> leaves \<open>connectedToBroker\<close> false, so the guard of the
  second call does not hold; the second call notifies "MQTT Connecting..." again and
  calls \<open>client.connect\<close> again, and when that call throws it also notifies
  "MQTT Connection Error".
\<close>

theorem C2_second_connect_while_connecting_js6:
  "connect_js6 calm initialized_js6 =
     (Inr (), connecting_js6,
      [ConsoleLog ''Attempting to connect...'', StatusChange False False ''MQTT Connecting...'',
       ClientConnect]) \<and>
   \<not> connectedToBroker connecting_js6 \<and>
   connect_js6 calm connecting_js6 =
     (Inr (), connecting_js6,
      [ConsoleLog ''Attempting to connect...'', StatusChange False False ''MQTT Connecting...'',
       ClientConnect]) \<and>
   connect_js6 (calm\<lparr>connect_throws := True\<rparr>) connecting_js6 =
     (Inr (), connecting_js6,
      [ConsoleLog ''Attempting to connect...'', StatusChange False False ''MQTT Connecting...'',
       ClientConnect, ConsoleError ''Error during client.connect call:'',
       StatusChange False False ''MQTT Connection Error''])"
  by (simp add: state_evals connect_js6_def updateAndNotifyStatus_js6_def calm_def)

text \<open>
  C10. \<open>connect()\<close> with no client (\<open>client\<close> is null) returns normally, leaves the state
  as it was, makes no call into the transport and does not call the status callback,
  in both variants.
\<close>

theorem C10_connect_without_client:
  "client s = None \<Longrightarrow>
   outcome (connect_js6 e s) = Inr () \<and> after (connect_js6 e s) = s \<and>
   transportCalls (effects (connect_js6 e s)) = [] \<and>
   statusChanges (effects (connect_js6 e s)) = [] \<and>
   outcome (connect_p000 e s) = Inr () \<and> after (connect_p000 e s) = s \<and>
   transportCalls (effects (connect_p000 e s)) = [] \<and>
   statusChanges (effects (connect_p000 e s)) = []"
  by (simp add: connect_js6_def connect_p000_def fx_defs)

theorem C10_connect_without_client_witness:
  "client initial = None \<and>
   connect_js6 calm initial = (Inr (), initial, [ConsoleError ''Client not initialized. Call init() first.'']) \<and>
   after (connect_p000 calm initial) = initial \<and>
   transportCalls (effects (connect_js6 calm initial)) = [] \<and>
   statusChanges (effects (connect_p000 calm initial)) = []"
proof -
  have n: "client initial = None" by (simp add: initial_def)
  have c: "connect_js6 calm initial =
      (Inr (), initial, [ConsoleError ''Client not initialized. Call init() first.''])"
    by (simp add: connect_js6_def initial_def)
  from C10_connect_without_client [OF n, of calm] n c show ?thesis by simp
qed

text \<open>
  C8. The claim: no exported operation lets an exception reach its caller. Evaluated on
  part_000: \<open>connect()\<close> called after a successful \<open>init\<close> ends with a ReferenceError.
\<close>

theorem C8_connect_p000_raises:
  "connect_p000 calm initialized_p000 =
     (Inl (ReferenceError ''onMessageArrived''), initialized_p000,
      [ConsoleLog ''Attempting to connect to MQTT broker at broker.hivemq.com:8000...'',
       StatusChangeMqtt False ''MQTT Connecting...''])"
  by (simp add: state_evals connect_p000_def updateAndNotifyStatus_p000_def cfg_defs)

lemma connect_p000_raises_whenever_it_proceeds:
  "client s \<noteq> None \<Longrightarrow> \<not> connectedToBroker s \<Longrightarrow>
   outcome (connect_p000 e s) = Inl (ReferenceError ''onMessageArrived'')"
  by (simp add: connect_p000_def updateAndNotifyStatus_p000_def fx_defs)

lemma exported_operations_return_js6:
  "outcome (connect_js6 e s) = Inr ()"
  "outcome (disconnect_js6 e s) = Inr ()"
  "\<exists>b. outcome (publish_js6 e j s) = Inr b"
  "outcome (forceDeviceOnlineConfirmation_js6 s) = Inr ()"
  by (auto simp: js6_defs fx_defs Let_def split: prod.splits)

lemma exported_operations_return_p000:
  "outcome (disconnect_p000 e s) = Inr ()"
  "\<exists>b. outcome (publish_p000 e j s) = Inr b"
  "outcome (forceDeviceOnlineConfirmation_p000 e s) = Inr ()"
  by (auto simp: p000_defs fx_defs Let_def split: prod.splits)


section \<open>publish\<close>

text \<open>
  C3, as claimed, fails on js6.js: with the broker connected and the device not yet
  confirmed, \<open>publish\<close> returns false and sends nothing.
\<close>

theorem C3_publish_unconfirmed_js6_counterexample:
  "connectedToBroker awaiting_js6 \<and> \<not> esp32ConfirmedOnline awaiting_js6 \<and>
   publish_js6 calm ''{}'' awaiting_js6 =
     (Inr False, awaiting_js6, [ConsoleError ''Cannot publish: Not fully connected.''])"
  by (simp add: awaiting_js6_eval publish_js6_def isFullyConnected_js6_def)

text \<open>
  C3, amended. Neither variant's \<open>publish\<close> changes the state or calls the status
  callback. In part_000 it returns false without a transport call exactly when
  \<open>isBrokerConnected()\<close> is false; when \<open>isBrokerConnected()\<close> holds it makes exactly one
  call, \<open>client.send\<close> to the command topic, returns whether that call did not throw, and
  writes a warning to the console log when the device is not confirmed. In js6.js it
  returns false without a transport call whenever the controller is not fully
  connected, and otherwise makes the one \<open>client.send\<close> and returns whether it did not
  throw.
\<close>

theorem C3_publish_gating:
  "after (publish_p000 e j s) = s \<and> statusChanges (effects (publish_p000 e j s)) = [] \<and>
   after (publish_js6 e j s) = s \<and> statusChanges (effects (publish_js6 e j s)) = [] \<and>
   ((outcome (publish_p000 e j s) = Inr False \<and> transportCalls (effects (publish_p000 e j s)) = [])
      = (\<not> isBrokerConnected_p000 e s)) \<and>
   (isBrokerConnected_p000 e s \<longrightarrow>
      transportCalls (effects (publish_p000 e j s)) = [ClientSend MQTT_COMMAND_TOPIC j] \<and>
      outcome (publish_p000 e j s) = Inr (\<not> send_throws e) \<and>
      (\<not> esp32ConfirmedOnline s \<longrightarrow>
         ConsoleLog ''Warning: Publishing command, but ESP32 device is not confirmed online. Message might be queued or lost.''
           \<in> set (effects (publish_p000 e j s)))) \<and>
   (\<not> isFullyConnected_js6 s \<longrightarrow>
      outcome (publish_js6 e j s) = Inr False \<and> transportCalls (effects (publish_js6 e j s)) = []) \<and>
   (isFullyConnected_js6 s \<and> client s \<noteq> None \<longrightarrow>
      transportCalls (effects (publish_js6 e j s)) = [ClientSend MQTT_COMMAND_TOPIC j] \<and>
      outcome (publish_js6 e j s) = Inr (\<not> send_throws e))"
  by (simp add: publish_p000_def publish_js6_def isFullyConnected_p000_def fx_defs Let_def)

theorem C3_publish_gating_witness:
  "isBrokerConnected_p000 calm awaiting_p000 \<and> \<not> esp32ConfirmedOnline awaiting_p000 \<and>
   outcome (publish_p000 calm ''{}'' awaiting_p000) = Inr True \<and>
   transportCalls (effects (publish_p000 calm ''{}'' awaiting_p000)) = [ClientSend MQTT_COMMAND_TOPIC ''{}''] \<and>
   after (publish_p000 calm ''{}'' awaiting_p000) = awaiting_p000 \<and>
   \<not> isFullyConnected_js6 awaiting_js6 \<and>
   outcome (publish_js6 calm ''{}'' awaiting_js6) = Inr False \<and>
   isFullyConnected_js6 online_js6 \<and>
   outcome (publish_js6 calm ''{}'' online_js6) = Inr True \<and>
   \<not> isBrokerConnected_p000 calm initialized_p000 \<and>
   outcome (publish_p000 calm ''{}'' initialized_p000) = Inr False"
proof -
  have a: "isBrokerConnected_p000 calm awaiting_p000" "\<not> esp32ConfirmedOnline awaiting_p000"
    by (simp_all add: awaiting_p000_eval isBrokerConnected_p000_def calm_def)
  have b: "\<not> isFullyConnected_js6 awaiting_js6"
    by (simp add: awaiting_js6_eval isFullyConnected_js6_def)
  have c: "isFullyConnected_js6 online_js6" "client online_js6 \<noteq> None"
    by (simp_all add: online_js6_eval isFullyConnected_js6_def)
  have d: "\<not> isBrokerConnected_p000 calm initialized_p000"
    by (simp add: initialized_p000_eval isBrokerConnected_p000_def)
  have t: "\<not> send_throws calm" by (simp add: calm_def)
  from C3_publish_gating [of calm "''{}''" awaiting_p000]
       C3_publish_gating [of calm "''{}''" awaiting_js6]
       C3_publish_gating [of calm "''{}''" online_js6]
       C3_publish_gating [of calm "''{}''" initialized_p000] a b c d t
  show ?thesis by simp
qed

section \<open>Messages on the device-ready topic\<close>

text \<open>
  C4, as claimed, fails. In js6.js a payload other than \<open>online\<close> that arrives while the
  device is confirmed clears the device flag and notifies "Device Offline", but no timer
  is set. In part_000 the payload \<open>ONLINE\<close> confirms the device as well, and a payload
  \<open>offline\<close> changes nothing and notifies nothing.
\<close>

theorem C4_device_ready_message_counterexample:
  "esp32ConfirmedOnline online_js6 \<and> timers online_js6 = [] \<and>
   \<not> esp32ConfirmedOnline (fst (onMessageArrived_js6 MQTT_DEVICE_READY_TOPIC ''offline'' online_js6)) \<and>
   timers (fst (onMessageArrived_js6 MQTT_DEVICE_READY_TOPIC ''offline'' online_js6)) = [] \<and>
   timersSet (snd (onMessageArrived_js6 MQTT_DEVICE_READY_TOPIC ''offline'' online_js6)) = [] \<and>
   esp32ConfirmedOnline (fst (onMessageArrived_p000 calm MQTT_ESP32_READY_TOPIC ''ONLINE'' awaiting_p000)) \<and>
   onMessageArrived_p000 calm MQTT_ESP32_READY_TOPIC ''offline'' online_p000 = (online_p000, [])"
  by (simp add: state_evals onMessageArrived_js6_def onMessageArrived_p000_def
      updateAndNotifyStatus_js6_def updateAndNotifyStatus_p000_def clearTimeout_def
      toLowerCase_def toLowerCase_char_def cfg_defs fx_defs)

text \<open>
  C4, amended. On the device-ready topic, in js6.js: the payload \<open>online\<close> and no other
  sets both flags, cancels the watchdog handle and notifies "MQTT Device Online"; any
  other payload sets the broker flag, clears the device flag and notifies
  "Device Offline", and leaves the timers as they are (no timer is set). In part_000:
  a payload that contains \<open>online\<close> in any letter case cancels the watchdog handle and,
  when the broker flag is set or the transport reports a session, sets both flags and
  notifies "MQTT Device Online"; any other payload changes nothing and notifies nothing.
\<close>

theorem C4_device_ready_message:
  "(payload = ''online'' \<longrightarrow>
      connectedToBroker (fst (onMessageArrived_js6 MQTT_DEVICE_READY_TOPIC payload s)) \<and>
      esp32ConfirmedOnline (fst (onMessageArrived_js6 MQTT_DEVICE_READY_TOPIC payload s)) \<and>
      \<not> watchdogPending s (fst (onMessageArrived_js6 MQTT_DEVICE_READY_TOPIC payload s)) \<and>
      statusChanges (snd (onMessageArrived_js6 MQTT_DEVICE_READY_TOPIC payload s)) =
        (if onConnectionStatusChangeCallback s then [StatusChange True True ''MQTT Device Online'']
         else [])) \<and>
   (payload \<noteq> ''online'' \<longrightarrow>
      connectedToBroker (fst (onMessageArrived_js6 MQTT_DEVICE_READY_TOPIC payload s)) \<and>
      \<not> esp32ConfirmedOnline (fst (onMessageArrived_js6 MQTT_DEVICE_READY_TOPIC payload s)) \<and>
      timers (fst (onMessageArrived_js6 MQTT_DEVICE_READY_TOPIC payload s)) = timers s \<and>
      timersSet (snd (onMessageArrived_js6 MQTT_DEVICE_READY_TOPIC payload s)) = [] \<and>
      statusChanges (snd (onMessageArrived_js6 MQTT_DEVICE_READY_TOPIC payload s)) =
        (if onConnectionStatusChangeCallback s then [StatusChange True False ''Device Offline'']
         else [])) \<and>
   (includes_str (toLowerCase payload) ''online'' \<longrightarrow>
      \<not> watchdogPending s (fst (onMessageArrived_p000 e MQTT_ESP32_READY_TOPIC payload s)) \<and>
      (connectedToBroker s \<or> (client s \<noteq> None \<and> isConnected e) \<longrightarrow>
         connectedToBroker (fst (onMessageArrived_p000 e MQTT_ESP32_READY_TOPIC payload s)) \<and>
         esp32ConfirmedOnline (fst (onMessageArrived_p000 e MQTT_ESP32_READY_TOPIC payload s)) \<and>
         statusChanges (snd (onMessageArrived_p000 e MQTT_ESP32_READY_TOPIC payload s)) =
           (if onConnectionStatusChangeCallback s then [StatusChangeMqtt True ''MQTT Device Online'']
            else []))) \<and>
   (\<not> includes_str (toLowerCase payload) ''online'' \<longrightarrow>
      onMessageArrived_p000 e MQTT_ESP32_READY_TOPIC payload s = (s, []))"
proof -
  have ne: "MQTT_ESP32_READY_TOPIC \<noteq> MQTT_STATUS_TOPIC"
    by (simp add: cfg_defs)
  have emp: "payload = [] \<Longrightarrow> \<not> includes_str (toLowerCase payload) ''online''"
    by (simp add: toLowerCase_def)
  have js: "onMessageArrived_js6 MQTT_DEVICE_READY_TOPIC pl s =
      (if pl = ''online'' then
         ((clearTimeout (deviceReadyTimeoutId s) s)\<lparr>connectedToBroker := True, esp32ConfirmedOnline := True\<rparr>,
          [ConsoleLog (''Message arrived on topic: '' @ MQTT_DEVICE_READY_TOPIC),
           ConsoleLog ''Device is ONLINE.'', ClearTimeout (deviceReadyTimeoutId s)]
          @ (if onConnectionStatusChangeCallback s then [StatusChange True True ''MQTT Device Online''] else []))
       else
         (s\<lparr>connectedToBroker := True, esp32ConfirmedOnline := False\<rparr>,
          [ConsoleLog (''Message arrived on topic: '' @ MQTT_DEVICE_READY_TOPIC),
           ConsoleLog ''Device is OFFLINE.'']
          @ (if onConnectionStatusChangeCallback s then [StatusChange True False ''Device Offline''] else [])))" for pl
    by (simp add: onMessageArrived_js6_def updateAndNotifyStatus_js6_def clearTimeout_def
        split: option.splits)
  have p: "includes_str (toLowerCase payload) ''online'' \<Longrightarrow>
      onMessageArrived_p000 e MQTT_ESP32_READY_TOPIC payload s =
        (if connectedToBroker s \<or> (client s \<noteq> None \<and> isConnected e) then
           ((clearTimeout (deviceReadyTimeoutId s) s)\<lparr>connectedToBroker := True, esp32ConfirmedOnline := True\<rparr>,
            [ConsoleLog ''ESP32 reported 'online' via MQTT (esp32_ready topic).'',
             ClearTimeout (deviceReadyTimeoutId s)]
            @ (if connectedToBroker s then []
               else [ConsoleLog ''Received ESP32 ready, but broker connection state is false. This is unusual.''])
            @ (if onConnectionStatusChangeCallback s then [StatusChangeMqtt True ''MQTT Device Online''] else []))
         else
           (clearTimeout (deviceReadyTimeoutId s) s,
            [ConsoleLog ''ESP32 reported 'online' via MQTT (esp32_ready topic).'',
             ClearTimeout (deviceReadyTimeoutId s),
             ConsoleLog ''Received ESP32 ready, but broker connection state is false. This is unusual.'']))"
    using ne emp
    by (auto simp: onMessageArrived_p000_def updateAndNotifyStatus_p000_def clearTimeout_def Let_def
        split: option.splits)
  have p1: "includes_str (toLowerCase payload) ''online'' \<Longrightarrow>
      \<not> watchdogPending s (fst (onMessageArrived_p000 e MQTT_ESP32_READY_TOPIC payload s))"
    by (simp add: p clearTimeout_def watchdogPending_def split: option.splits)
  have p2: "includes_str (toLowerCase payload) ''online'' \<Longrightarrow>
      connectedToBroker s \<or> (client s \<noteq> None \<and> isConnected e) \<Longrightarrow>
      connectedToBroker (fst (onMessageArrived_p000 e MQTT_ESP32_READY_TOPIC payload s)) \<and>
      esp32ConfirmedOnline (fst (onMessageArrived_p000 e MQTT_ESP32_READY_TOPIC payload s)) \<and>
      statusChanges (snd (onMessageArrived_p000 e MQTT_ESP32_READY_TOPIC payload s)) =
        (if onConnectionStatusChangeCallback s then [StatusChangeMqtt True ''MQTT Device Online''] else [])"
    by (simp add: p statusChanges_def)
  have p3: "\<not> includes_str (toLowerCase payload) ''online'' \<Longrightarrow>
      onMessageArrived_p000 e MQTT_ESP32_READY_TOPIC payload s = (s, [])"
    using ne by (simp add: onMessageArrived_p000_def)
  have j1: "payload = ''online'' \<Longrightarrow>
      connectedToBroker (fst (onMessageArrived_js6 MQTT_DEVICE_READY_TOPIC payload s)) \<and>
      esp32ConfirmedOnline (fst (onMessageArrived_js6 MQTT_DEVICE_READY_TOPIC payload s)) \<and>
      \<not> watchdogPending s (fst (onMessageArrived_js6 MQTT_DEVICE_READY_TOPIC payload s)) \<and>
      statusChanges (snd (onMessageArrived_js6 MQTT_DEVICE_READY_TOPIC payload s)) =
        (if onConnectionStatusChangeCallback s then [StatusChange True True ''MQTT Device Online'']
         else [])"
    by (simp add: js clearTimeout_def watchdogPending_def statusChanges_def split: option.splits)
  have j2: "payload \<noteq> ''online'' \<Longrightarrow>
      connectedToBroker (fst (onMessageArrived_js6 MQTT_DEVICE_READY_TOPIC payload s)) \<and>
      \<not> esp32ConfirmedOnline (fst (onMessageArrived_js6 MQTT_DEVICE_READY_TOPIC payload s)) \<and>
      timers (fst (onMessageArrived_js6 MQTT_DEVICE_READY_TOPIC payload s)) = timers s \<and>
      timersSet (snd (onMessageArrived_js6 MQTT_DEVICE_READY_TOPIC payload s)) = [] \<and>
      statusChanges (snd (onMessageArrived_js6 MQTT_DEVICE_READY_TOPIC payload s)) =
        (if onConnectionStatusChangeCallback s then [StatusChange True False ''Device Offline'']
         else [])"
    by (simp add: js timersSet_def statusChanges_def)
  from j1 j2 p1 p2 p3 show ?thesis by blast
qed

theorem C4_device_ready_message_witness:
  "esp32ConfirmedOnline (fst (onMessageArrived_js6 MQTT_DEVICE_READY_TOPIC ''online'' awaiting_js6)) \<and>
   \<not> watchdogPending awaiting_js6 (fst (onMessageArrived_js6 MQTT_DEVICE_READY_TOPIC ''online'' awaiting_js6)) \<and>
   statusChanges (snd (onMessageArrived_js6 MQTT_DEVICE_READY_TOPIC ''online'' awaiting_js6)) =
     [StatusChange True True ''MQTT Device Online''] \<and>
   \<not> esp32ConfirmedOnline (fst (onMessageArrived_js6 MQTT_DEVICE_READY_TOPIC ''offline'' online_js6)) \<and>
   statusChanges (snd (onMessageArrived_js6 MQTT_DEVICE_READY_TOPIC ''offline'' online_js6)) =
     [StatusChange True False ''Device Offline''] \<and>
   includes_str (toLowerCase ''Online'') ''online'' \<and>
   esp32ConfirmedOnline (fst (onMessageArrived_p000 calm MQTT_ESP32_READY_TOPIC ''Online'' awaiting_p000)) \<and>
   \<not> watchdogPending awaiting_p000 (fst (onMessageArrived_p000 calm MQTT_ESP32_READY_TOPIC ''Online'' awaiting_p000)) \<and>
   \<not> includes_str (toLowerCase ''offline'') ''online'' \<and>
   onMessageArrived_p000 calm MQTT_ESP32_READY_TOPIC ''offline'' online_p000 = (online_p000, [])"
proof -
  have i1: "includes_str (toLowerCase ''Online'') ''online''"
    by (simp add: toLowerCase_def toLowerCase_char_def)
  have i2: "\<not> includes_str (toLowerCase ''offline'') ''online''"
    by (simp add: toLowerCase_def toLowerCase_char_def)
  have c: "onConnectionStatusChangeCallback awaiting_js6" "onConnectionStatusChangeCallback online_js6"
    "connectedToBroker awaiting_p000"
    by (simp_all add: state_evals)
  have o: "''offline'' \<noteq> ''online''" by simp
  from C4_device_ready_message [of "''online''" awaiting_js6 calm]
       C4_device_ready_message [of "''offline''" online_js6 calm]
       C4_device_ready_message [of "''offline''" online_p000 calm]
       C4_device_ready_message [of "''Online''" awaiting_p000 calm]
       i1 i2 c o
  show ?thesis by simp
qed


section \<open>The watchdog\<close>

text \<open>
  C5, as claimed, fails on js6.js. Its timeout callback has no guard and notifies
  "Device Offline". After connect, disconnect, connect again and an \<open>online\<close> message,
  the timer of the first connection is still pending while the device is confirmed;
  when it fires the device flag is cleared and the host is notified.
\<close>

theorem C5_watchdog_fires_js6_counterexample:
  "esp32ConfirmedOnline reconnected_js6 \<and> 0 \<in> set (timers reconnected_js6) \<and>
   \<not> esp32ConfirmedOnline (fst (step JS6 calm (TimerFires 0) reconnected_js6)) \<and>
   statusChanges (snd (step JS6 calm (TimerFires 0) reconnected_js6)) =
     [StatusChange True False ''Device Offline''] \<and>
   0 \<in> set (timers awaiting_js6) \<and>
   statusChanges (snd (step JS6 calm (TimerFires 0) awaiting_js6)) =
     [StatusChange True False ''Device Offline'']"
  by (simp add: state_evals deviceReadyTimeout_js6_def updateAndNotifyStatus_js6_def fx_defs)

text \<open>
  C5, amended. When the watchdog fires: in part_000, if the broker flag is set and the
  device is unconfirmed, the flags are (true, false) afterwards and the status callback
  is called with ('mqtt', true, "MQTT: Device Not Responding"); if the device is
  confirmed (or the broker flag is clear) nothing changes and nothing is notified. In
  js6.js, if the broker flag is set and the device is unconfirmed, the flags are
  (true, false) afterwards and the status callback is called with
  (true, false, "Device Offline").
\<close>

theorem C5_watchdog_fires:
  "(connectedToBroker s \<and> \<not> esp32ConfirmedOnline s \<longrightarrow>
      connectedToBroker (fst (deviceReadyTimeout_p000 s)) \<and>
      \<not> esp32ConfirmedOnline (fst (deviceReadyTimeout_p000 s)) \<and>
      statusChanges (snd (deviceReadyTimeout_p000 s)) =
        (if onConnectionStatusChangeCallback s
         then [StatusChangeMqtt True ''MQTT: Device Not Responding''] else [])) \<and>
   (esp32ConfirmedOnline s \<or> \<not> connectedToBroker s \<longrightarrow> deviceReadyTimeout_p000 s = (s, [])) \<and>
   (connectedToBroker s \<and> \<not> esp32ConfirmedOnline s \<longrightarrow>
      connectedToBroker (fst (deviceReadyTimeout_js6 s)) \<and>
      \<not> esp32ConfirmedOnline (fst (deviceReadyTimeout_js6 s)) \<and>
      statusChanges (snd (deviceReadyTimeout_js6 s)) =
        (if onConnectionStatusChangeCallback s then [StatusChange True False ''Device Offline'']
         else []))"
  by (auto simp: deviceReadyTimeout_p000_def deviceReadyTimeout_js6_def
      updateAndNotifyStatus_p000_def updateAndNotifyStatus_js6_def statusChanges_def)

theorem C5_watchdog_fires_witness:
  "connectedToBroker awaiting_p000 \<and> \<not> esp32ConfirmedOnline awaiting_p000 \<and>
   0 \<in> set (timers awaiting_p000) \<and>
   statusChanges (snd (step P000 calm (TimerFires 0) awaiting_p000)) =
     [StatusChangeMqtt True ''MQTT: Device Not Responding''] \<and>
   \<not> esp32ConfirmedOnline (fst (deviceReadyTimeout_p000 awaiting_p000)) \<and>
   esp32ConfirmedOnline online_p000 \<and>
   deviceReadyTimeout_p000 online_p000 = (online_p000, []) \<and>
   connectedToBroker awaiting_js6 \<and> \<not> esp32ConfirmedOnline awaiting_js6 \<and>
   statusChanges (snd (deviceReadyTimeout_js6 awaiting_js6)) =
     [StatusChange True False ''Device Offline'']"
proof -
  have a: "connectedToBroker awaiting_p000" "\<not> esp32ConfirmedOnline awaiting_p000"
    "onConnectionStatusChangeCallback awaiting_p000" "0 \<in> set (timers awaiting_p000)"
    by (simp_all add: awaiting_p000_eval)
  have f: "snd (step P000 calm (TimerFires 0) awaiting_p000) = snd (deviceReadyTimeout_p000 awaiting_p000)"
    by (simp add: awaiting_p000_eval deviceReadyTimeout_p000_def updateAndNotifyStatus_p000_def)
  have b: "esp32ConfirmedOnline online_p000" by (simp add: online_p000_eval)
  have c: "connectedToBroker awaiting_js6" "\<not> esp32ConfirmedOnline awaiting_js6"
    "onConnectionStatusChangeCallback awaiting_js6"
    by (simp_all add: awaiting_js6_eval)
  from C5_watchdog_fires [of awaiting_p000] C5_watchdog_fires [of online_p000]
       C5_watchdog_fires [of awaiting_js6] a b c f
  show ?thesis by simp
qed

section \<open>Loss of the connection\<close>

text \<open>
  C6, as claimed, fails on js6.js: a loss with a non-zero error code is notified as
  "MQTT Disconnected", the message of a deliberate disconnect, and the watchdog set by
  \<open>onConnectSuccess\<close> stays pending.
\<close>

theorem C6_connection_lost_js6_counterexample:
  "connectedToBroker awaiting_js6 \<and>
   statusChanges (snd (step JS6 calm (ConnectionLost 8 ''AMQJS0008I Socket closed.'') awaiting_js6)) =
     [StatusChange False False ''MQTT Disconnected''] \<and>
   watchdogPending awaiting_js6
     (fst (step JS6 calm (ConnectionLost 8 ''AMQJS0008I Socket closed.'') awaiting_js6))"
  by (simp add: awaiting_js6_eval onConnectionLost_js6_def updateAndNotifyStatus_js6_def fx_defs)

text \<open>
  C6, amended. On a connection-lost event both flags are false afterwards, in both
  variants and from every state. part_000 cancels the watchdog handle and notifies
  "MQTT Connection Lost" when the error code is not 0 and "MQTT Disconnected" when it
  is 0. js6.js notifies "MQTT Disconnected" for every loss, whatever its error code.
\<close>

theorem C6_connection_lost:
  "\<not> connectedToBroker (fst (onConnectionLost_p000 errorCode m s)) \<and>
   \<not> esp32ConfirmedOnline (fst (onConnectionLost_p000 errorCode m s)) \<and>
   \<not> watchdogPending s (fst (onConnectionLost_p000 errorCode m s)) \<and>
   statusChanges (snd (onConnectionLost_p000 errorCode m s)) =
     (if onConnectionStatusChangeCallback s
      then [StatusChangeMqtt False
              (if errorCode \<noteq> 0 then ''MQTT Connection Lost'' else ''MQTT Disconnected'')]
      else []) \<and>
   \<not> connectedToBroker (fst (onConnectionLost_js6 m s)) \<and>
   \<not> esp32ConfirmedOnline (fst (onConnectionLost_js6 m s)) \<and>
   statusChanges (snd (onConnectionLost_js6 m s)) =
     (if onConnectionStatusChangeCallback s then [StatusChange False False ''MQTT Disconnected'']
      else [])"
  by (simp add: onConnectionLost_p000_def onConnectionLost_js6_def updateAndNotifyStatus_p000_def
      updateAndNotifyStatus_js6_def clearTimeout_def fx_defs split: option.splits)

theorem C6_connection_lost_witness:
  "watchdogPending awaiting_p000 awaiting_p000 \<and>
   \<not> watchdogPending awaiting_p000 (fst (onConnectionLost_p000 8 ''AMQJS0008I Socket closed.'' awaiting_p000)) \<and>
   \<not> connectedToBroker (fst (onConnectionLost_p000 8 ''AMQJS0008I Socket closed.'' awaiting_p000)) \<and>
   statusChanges (snd (onConnectionLost_p000 8 ''AMQJS0008I Socket closed.'' awaiting_p000)) =
     [StatusChangeMqtt False ''MQTT Connection Lost''] \<and>
   statusChanges (snd (onConnectionLost_p000 0 ''AMQJS0000I OK.'' online_p000)) =
     [StatusChangeMqtt False ''MQTT Disconnected''] \<and>
   \<not> esp32ConfirmedOnline (fst (onConnectionLost_js6 ''AMQJS0008I Socket closed.'' online_js6))"
proof -
  have a: "watchdogPending awaiting_p000 awaiting_p000"
    "onConnectionStatusChangeCallback awaiting_p000" "onConnectionStatusChangeCallback online_p000"
    by (simp_all add: state_evals watchdogPending_def)
  from C6_connection_lost [of 8 "''AMQJS0008I Socket closed.''" awaiting_p000]
       C6_connection_lost [of 0 "''AMQJS0000I OK.''" online_p000]
       C6_connection_lost [of 0 "''AMQJS0008I Socket closed.''" online_js6] a
  show ?thesis by simp
qed

section \<open>disconnect\<close>

text \<open>
  C7, as claimed, fails on js6.js. Its \<open>disconnect()\<close> from a connected state asks the
  transport to disconnect and notifies (false, false, "MQTT Disconnected"), but it
  makes no \<open>unsubscribe\<close> call and leaves the watchdog pending; from a state in which the
  broker flag is clear it does nothing and notifies nothing.
\<close>

theorem C7_disconnect_js6_counterexample:
  "connectedToBroker awaiting_js6 \<and>
   transportCalls (effects (disconnect_js6 calm awaiting_js6)) = [ClientDisconnect] \<and>
   watchdogPending awaiting_js6 (after (disconnect_js6 calm awaiting_js6)) \<and>
   disconnect_js6 calm initialized_js6 = (Inr (), initialized_js6, [])"
  by (simp add: state_evals disconnect_js6_def updateAndNotifyStatus_js6_def calm_def fx_defs)

text \<open>
  C7, amended. \<open>disconnect()\<close> of part_000 returns normally and cancels the watchdog
  handle in every state. When a client exists and the transport reports a session
  and none of the calls throws, it calls \<open>unsubscribe\<close> for the status topic and for the
  device-ready topic and then \<open>client.disconnect\<close>, and leaves the flags and the host
  unnotified; the connection-lost event with error code 0 that follows sets both
  flags false and notifies "MQTT Disconnected". When one of the three calls throws,
  both flags are false and "MQTT Disconnect Error" is notified. When there is no
  client or no session, both flags are false and "MQTT Disconnected" is notified,
  without a transport call. \<open>disconnect()\<close> of js6.js, when a client exists and the
  broker flag is set, calls \<open>client.disconnect\<close> only, sets both flags false and
  notifies (false, false, "MQTT Disconnected"); otherwise it does nothing.
\<close>

theorem C7_disconnect:
  "outcome (disconnect_p000 e s) = Inr () \<and>
   \<not> watchdogPending s (after (disconnect_p000 e s)) \<and>
   (client s \<noteq> None \<and> isConnected e \<and> \<not> unsubscribe_throws e MQTT_STATUS_TOPIC \<and>
    \<not> unsubscribe_throws e MQTT_ESP32_READY_TOPIC \<and> \<not> disconnect_throws e \<longrightarrow>
      transportCalls (effects (disconnect_p000 e s)) =
        [ClientUnsubscribe MQTT_STATUS_TOPIC, ClientUnsubscribe MQTT_ESP32_READY_TOPIC,
         ClientDisconnect] \<and>
      statusChanges (effects (disconnect_p000 e s)) = [] \<and>
      connectedToBroker (after (disconnect_p000 e s)) = connectedToBroker s \<and>
      esp32ConfirmedOnline (after (disconnect_p000 e s)) = esp32ConfirmedOnline s \<and>
      \<not> connectedToBroker (fst (onConnectionLost_p000 0 m (after (disconnect_p000 e s)))) \<and>
      \<not> esp32ConfirmedOnline (fst (onConnectionLost_p000 0 m (after (disconnect_p000 e s)))) \<and>
      statusChanges (snd (onConnectionLost_p000 0 m (after (disconnect_p000 e s)))) =
        (if onConnectionStatusChangeCallback s then [StatusChangeMqtt False ''MQTT Disconnected'']
         else [])) \<and>
   (client s \<noteq> None \<and> isConnected e \<and>
    (unsubscribe_throws e MQTT_STATUS_TOPIC \<or> unsubscribe_throws e MQTT_ESP32_READY_TOPIC \<or>
     disconnect_throws e) \<longrightarrow>
      ClientUnsubscribe MQTT_STATUS_TOPIC \<in> set (effects (disconnect_p000 e s)) \<and>
      \<not> connectedToBroker (after (disconnect_p000 e s)) \<and>
      \<not> esp32ConfirmedOnline (after (disconnect_p000 e s)) \<and>
      statusChanges (effects (disconnect_p000 e s)) =
        (if onConnectionStatusChangeCallback s then [StatusChangeMqtt False ''MQTT Disconnect Error'']
         else [])) \<and>
   (client s = None \<or> \<not> isConnected e \<longrightarrow>
      transportCalls (effects (disconnect_p000 e s)) = [] \<and>
      \<not> connectedToBroker (after (disconnect_p000 e s)) \<and>
      \<not> esp32ConfirmedOnline (after (disconnect_p000 e s)) \<and>
      statusChanges (effects (disconnect_p000 e s)) =
        (if onConnectionStatusChangeCallback s then [StatusChangeMqtt False ''MQTT Disconnected'']
         else [])) \<and>
   (client s \<noteq> None \<and> connectedToBroker s \<longrightarrow>
      transportCalls (effects (disconnect_js6 e s)) = [ClientDisconnect] \<and>
      \<not> connectedToBroker (after (disconnect_js6 e s)) \<and>
      \<not> esp32ConfirmedOnline (after (disconnect_js6 e s)) \<and>
      statusChanges (effects (disconnect_js6 e s)) =
        (if onConnectionStatusChangeCallback s then [StatusChange False False ''MQTT Disconnected'']
         else [])) \<and>
   (client s = None \<or> \<not> connectedToBroker s \<longrightarrow> disconnect_js6 e s = (Inr (), s, []))"
proof -
  have o: "outcome (disconnect_p000 e s) = Inr ()"
    by (simp add: disconnect_p000_def outcome_def Let_def split: prod.splits)
  have w: "\<not> watchdogPending s (after (disconnect_p000 e s))"
    by (simp add: disconnect_p000_def updateAndNotifyStatus_p000_def clearTimeout_def
        after_def watchdogPending_def Let_def split: option.splits)
  have ok: "client s \<noteq> None \<Longrightarrow> isConnected e \<Longrightarrow> \<not> unsubscribe_throws e MQTT_STATUS_TOPIC \<Longrightarrow>
      \<not> unsubscribe_throws e MQTT_ESP32_READY_TOPIC \<Longrightarrow> \<not> disconnect_throws e \<Longrightarrow>
      disconnect_p000 e s =
        (Inr (), clearTimeout (deviceReadyTimeoutId s) s,
         [ConsoleLog ''disconnect() called by main application.'',
          ClearTimeout (deviceReadyTimeoutId s),
          ConsoleLog ''Actively disconnecting Paho client from MQTT broker.'',
          ClientUnsubscribe MQTT_STATUS_TOPIC, ClientUnsubscribe MQTT_ESP32_READY_TOPIC,
          ClientDisconnect])"
    by (auto simp: disconnect_p000_def clearTimeout_def Let_def split: option.splits)
  have c1: "client s \<noteq> None \<Longrightarrow> isConnected e \<Longrightarrow> \<not> unsubscribe_throws e MQTT_STATUS_TOPIC \<Longrightarrow>
      \<not> unsubscribe_throws e MQTT_ESP32_READY_TOPIC \<Longrightarrow> \<not> disconnect_throws e \<Longrightarrow>
      transportCalls (effects (disconnect_p000 e s)) =
        [ClientUnsubscribe MQTT_STATUS_TOPIC, ClientUnsubscribe MQTT_ESP32_READY_TOPIC,
         ClientDisconnect] \<and>
      statusChanges (effects (disconnect_p000 e s)) = [] \<and>
      connectedToBroker (after (disconnect_p000 e s)) = connectedToBroker s \<and>
      esp32ConfirmedOnline (after (disconnect_p000 e s)) = esp32ConfirmedOnline s \<and>
      \<not> connectedToBroker (fst (onConnectionLost_p000 0 m (after (disconnect_p000 e s)))) \<and>
      \<not> esp32ConfirmedOnline (fst (onConnectionLost_p000 0 m (after (disconnect_p000 e s)))) \<and>
      statusChanges (snd (onConnectionLost_p000 0 m (after (disconnect_p000 e s)))) =
        (if onConnectionStatusChangeCallback s then [StatusChangeMqtt False ''MQTT Disconnected'']
         else [])"
    by (simp add: ok onConnectionLost_p000_def updateAndNotifyStatus_p000_def clearTimeout_def
        fx_defs split: option.splits)
  have c2: "client s \<noteq> None \<Longrightarrow> isConnected e \<Longrightarrow>
      unsubscribe_throws e MQTT_STATUS_TOPIC \<or> unsubscribe_throws e MQTT_ESP32_READY_TOPIC \<or>
        disconnect_throws e \<Longrightarrow>
      ClientUnsubscribe MQTT_STATUS_TOPIC \<in> set (effects (disconnect_p000 e s)) \<and>
      \<not> connectedToBroker (after (disconnect_p000 e s)) \<and>
      \<not> esp32ConfirmedOnline (after (disconnect_p000 e s)) \<and>
      statusChanges (effects (disconnect_p000 e s)) =
        (if onConnectionStatusChangeCallback s then [StatusChangeMqtt False ''MQTT Disconnect Error'']
         else [])"
    by (auto simp: disconnect_p000_def updateAndNotifyStatus_p000_def clearTimeout_def
        fx_defs Let_def split: option.splits)
  have c3: "client s = None \<or> \<not> isConnected e \<Longrightarrow>
      transportCalls (effects (disconnect_p000 e s)) = [] \<and>
      \<not> connectedToBroker (after (disconnect_p000 e s)) \<and>
      \<not> esp32ConfirmedOnline (after (disconnect_p000 e s)) \<and>
      statusChanges (effects (disconnect_p000 e s)) =
        (if onConnectionStatusChangeCallback s then [StatusChangeMqtt False ''MQTT Disconnected'']
         else [])"
    by (auto simp: disconnect_p000_def updateAndNotifyStatus_p000_def clearTimeout_def
        fx_defs Let_def split: option.splits)
  have j1: "client s \<noteq> None \<Longrightarrow> connectedToBroker s \<Longrightarrow>
      transportCalls (effects (disconnect_js6 e s)) = [ClientDisconnect] \<and>
      \<not> connectedToBroker (after (disconnect_js6 e s)) \<and>
      \<not> esp32ConfirmedOnline (after (disconnect_js6 e s)) \<and>
      statusChanges (effects (disconnect_js6 e s)) =
        (if onConnectionStatusChangeCallback s then [StatusChange False False ''MQTT Disconnected'']
         else [])"
    by (simp add: disconnect_js6_def updateAndNotifyStatus_js6_def fx_defs)
  have j2: "client s = None \<or> \<not> connectedToBroker s \<Longrightarrow> disconnect_js6 e s = (Inr (), s, [])"
    by (auto simp: disconnect_js6_def)
  from o w c1 c2 c3 j1 j2 show ?thesis by blast
qed

theorem C7_disconnect_witness:
  "transportCalls (effects (disconnect_p000 calm online_p000)) =
     [ClientUnsubscribe MQTT_STATUS_TOPIC, ClientUnsubscribe MQTT_ESP32_READY_TOPIC, ClientDisconnect] \<and>
   esp32ConfirmedOnline (after (disconnect_p000 calm online_p000)) \<and>
   statusChanges (snd (onConnectionLost_p000 0 ''AMQJS0000I OK.'' (after (disconnect_p000 calm online_p000)))) =
     [StatusChangeMqtt False ''MQTT Disconnected''] \<and>
   \<not> esp32ConfirmedOnline (fst (onConnectionLost_p000 0 ''AMQJS0000I OK.'' (after (disconnect_p000 calm online_p000)))) \<and>
   statusChanges (effects (disconnect_p000 (calm\<lparr>disconnect_throws := True\<rparr>) online_p000)) =
     [StatusChangeMqtt False ''MQTT Disconnect Error''] \<and>
   statusChanges (effects (disconnect_p000 (calm\<lparr>isConnected := False\<rparr>) initialized_p000)) =
     [StatusChangeMqtt False ''MQTT Disconnected''] \<and>
   \<not> watchdogPending awaiting_p000 (after (disconnect_p000 calm awaiting_p000)) \<and>
   statusChanges (effects (disconnect_js6 calm online_js6)) =
     [StatusChange False False ''MQTT Disconnected''] \<and>
   disconnect_js6 calm initialized_js6 = (Inr (), initialized_js6, [])"
proof -
  have a: "client online_p000 \<noteq> None" "esp32ConfirmedOnline online_p000"
    "onConnectionStatusChangeCallback online_p000" "onConnectionStatusChangeCallback initialized_p000"
    "client online_js6 \<noteq> None" "connectedToBroker online_js6"
    "onConnectionStatusChangeCallback online_js6" "\<not> connectedToBroker initialized_js6"
    by (simp_all add: state_evals)
  have e: "isConnected calm" "\<not> unsubscribe_throws calm MQTT_STATUS_TOPIC"
    "\<not> unsubscribe_throws calm MQTT_ESP32_READY_TOPIC" "\<not> disconnect_throws calm"
    "isConnected (calm\<lparr>disconnect_throws := True\<rparr>)" "disconnect_throws (calm\<lparr>disconnect_throws := True\<rparr>)"
    "\<not> isConnected (calm\<lparr>isConnected := False\<rparr>)"
    by (simp_all add: calm_def)
  from C7_disconnect [of calm online_p000 "''AMQJS0000I OK.''"]
       C7_disconnect [of "calm\<lparr>disconnect_throws := True\<rparr>" online_p000]
       C7_disconnect [of "calm\<lparr>isConnected := False\<rparr>" initialized_p000]
       C7_disconnect [of calm awaiting_p000]
       C7_disconnect [of calm online_js6]
       C7_disconnect [of calm initialized_js6] a e
  show ?thesis by simp
qed

section \<open>forceDeviceOnlineConfirmation\<close>

text \<open>
  C9, as claimed, fails on js6.js: the forced confirmation is notified as
  "MQTT Device Online", the message of a confirmation over the message bus.
\<close>

theorem C9_force_confirmation_js6_counterexample:
  "connectedToBroker awaiting_js6 \<and> \<not> esp32ConfirmedOnline awaiting_js6 \<and>
   statusChanges (effects (forceDeviceOnlineConfirmation_js6 awaiting_js6)) =
     [StatusChange True True ''MQTT Device Online'']"
  by (simp add: awaiting_js6_eval forceDeviceOnlineConfirmation_js6_def isBrokerConnected_js6_def
      updateAndNotifyStatus_js6_def clearTimeout_def fx_defs)

text \<open>
  C9, amended. \<open>forceDeviceOnlineConfirmation()\<close> called while the broker is connected
  and the device is unconfirmed cancels the watchdog handle and sets both flags. In
  part_000 (where connected means \<open>isBrokerConnected()\<close>: the flag, a client, and the
  transport reporting a session) the status callback is called with
  ('mqtt', true, "MQTT Device Online (Confirmed Alt)"); in js6.js it is called with
  (true, true, "MQTT Device Online").
\<close>

theorem C9_force_confirmation:
  "(isBrokerConnected_p000 e s \<and> \<not> esp32ConfirmedOnline s \<longrightarrow>
      connectedToBroker (after (forceDeviceOnlineConfirmation_p000 e s)) \<and>
      esp32ConfirmedOnline (after (forceDeviceOnlineConfirmation_p000 e s)) \<and>
      \<not> watchdogPending s (after (forceDeviceOnlineConfirmation_p000 e s)) \<and>
      statusChanges (effects (forceDeviceOnlineConfirmation_p000 e s)) =
        (if onConnectionStatusChangeCallback s
         then [StatusChangeMqtt True ''MQTT Device Online (Confirmed Alt)''] else [])) \<and>
   (isBrokerConnected_js6 s \<and> \<not> esp32ConfirmedOnline s \<longrightarrow>
      connectedToBroker (after (forceDeviceOnlineConfirmation_js6 s)) \<and>
      esp32ConfirmedOnline (after (forceDeviceOnlineConfirmation_js6 s)) \<and>
      \<not> watchdogPending s (after (forceDeviceOnlineConfirmation_js6 s)) \<and>
      statusChanges (effects (forceDeviceOnlineConfirmation_js6 s)) =
        (if onConnectionStatusChangeCallback s then [StatusChange True True ''MQTT Device Online'']
         else []))"
  by (simp add: forceDeviceOnlineConfirmation_p000_def forceDeviceOnlineConfirmation_js6_def
      updateAndNotifyStatus_p000_def updateAndNotifyStatus_js6_def clearTimeout_def fx_defs
      split: option.splits)

theorem C9_force_confirmation_witness:
  "isBrokerConnected_p000 calm awaiting_p000 \<and> \<not> esp32ConfirmedOnline awaiting_p000 \<and>
   watchdogPending awaiting_p000 awaiting_p000 \<and>
   esp32ConfirmedOnline (after (forceDeviceOnlineConfirmation_p000 calm awaiting_p000)) \<and>
   \<not> watchdogPending awaiting_p000 (after (forceDeviceOnlineConfirmation_p000 calm awaiting_p000)) \<and>
   statusChanges (effects (forceDeviceOnlineConfirmation_p000 calm awaiting_p000)) =
     [StatusChangeMqtt True ''MQTT Device Online (Confirmed Alt)''] \<and>
   isBrokerConnected_js6 awaiting_js6 \<and>
   esp32ConfirmedOnline (after (forceDeviceOnlineConfirmation_js6 awaiting_js6)) \<and>
   \<not> watchdogPending awaiting_js6 (after (forceDeviceOnlineConfirmation_js6 awaiting_js6))"
proof -
  have a: "isBrokerConnected_p000 calm awaiting_p000" "\<not> esp32ConfirmedOnline awaiting_p000"
    "watchdogPending awaiting_p000 awaiting_p000" "onConnectionStatusChangeCallback awaiting_p000"
    by (simp_all add: awaiting_p000_eval isBrokerConnected_p000_def calm_def watchdogPending_def)
  have b: "isBrokerConnected_js6 awaiting_js6" "\<not> esp32ConfirmedOnline awaiting_js6"
    by (simp_all add: awaiting_js6_eval isBrokerConnected_js6_def)
  from C9_force_confirmation [of calm awaiting_p000] C9_force_confirmation [of calm awaiting_js6] a b
  show ?thesis by simp
qed


end
